theory Spec2Isabelle
  imports Main "HOL-Library.Word" "HOL-Library.AList" "HOL-Library.Sublist"
    "HOL-Library.Signed_Division"
begin

section \<open>Data model (core/types.go)\<close>

text \<open>
  Errors are values. Each constructor stands for one error the code builds: the two
  context errors, an error made by a business function, and one constructor for every
  \<^verbatim>\<open>fmt.Errorf\<close> format of the registry, the invoker and the middleware. A wrapped
  error (\<^verbatim>\<open>%w\<close>) keeps the error it wraps; \<^verbatim>\<open>lastErr\<close> may still be nil when it
  is wrapped, hence the \<open>option\<close>.
\<close>

datatype error =
    Canceled
  | DeadlineExceeded
  | Failure string
  | NotFound string
  | AlreadyRegistered string
  | ConstructorNotFound string
  | PipelineFailed nat error
  | MaxRetriesExceeded "error option"
  | AfterRetries int "error option"

text \<open>A Go panic that the modelled code can raise.\<close>

datatype panic = NilPointerDereference | InterfaceConversion string

text \<open>
  Times and durations are counted in nanoseconds, as \<^verbatim>\<open>time.Duration\<close> does. A context
  is described by the instant from which \<^verbatim>\<open>ctx.Done()\<close> is closed (none for
  \<^verbatim>\<open>context.Background()\<close>) and by the error \<^verbatim>\<open>ctx.Err()\<close> reports from then on.
\<close>

record ctx =
  done_at :: "int option"
  cause :: error

definition Background :: ctx where
  "Background = \<lparr>done_at = None, cause = Canceled\<rparr>"

record LambdaOptions =
  Timeout :: int
  EnableMetrics :: bool
  Concurrency :: int
  Retries :: int
  EnableCallback :: bool
  ComponentType :: string

record LambdaMetrics =
  TotalInvocations :: int
  SuccessInvocations :: int
  ErrorInvocations :: int
  TotalDuration :: int
  AverageDuration :: int
  LastInvocationTime :: int

record 'o LambdaResult =
  Output :: 'o
  Error :: "error option"
  Duration :: int
  Timestamp :: int

record LambdaMeta =
  Name :: string
  InputType :: string
  OutputType :: string
  MetaComponentType :: string
  RegisteredAt :: int

text \<open>
  The world a call runs in: the clock, the statistics records (\<^verbatim>\<open>*LambdaMetrics\<close>
  pointers are addresses into \<open>metrics_heap\<close>, so that clones share one record), the
  scheduler's choices for a \<^verbatim>\<open>select\<close> with two ready cases (choice number
  \<open>races\<close> is consumed next), and whatever state the business functions keep.
\<close>

record 'u world =
  now :: int
  metrics_heap :: "nat \<Rightarrow> LambdaMetrics"
  coin :: "nat \<Rightarrow> bool"
  races :: nat
  user :: 'u

type_synonym ('i, 'o, 'u) InvokeFunc =
  "ctx \<Rightarrow> 'i \<Rightarrow> 'u world \<Rightarrow> ('o \<times> error option) \<times> 'u world"

text \<open>
  Go types, as far as \<^verbatim>\<open>reflect.Type.String\<close> distinguishes them: a named type is
  identified by its import path and name, and printed with the package name only.
\<close>

datatype gotype =
    Builtin string
  | Named string string string
  | PtrTo gotype
  | SliceOf gotype

fun type_String :: "gotype \<Rightarrow> string" where
  "type_String (Builtin n) = n"
| "type_String (Named path pkg n) = pkg @ ''.'' @ n"
| "type_String (PtrTo t) = ''*'' @ type_String t"
| "type_String (SliceOf t) = ''[]'' @ type_String t"

text \<open>
  \<^verbatim>\<open>Lambda[I, O]\<close>. The type arguments are carried as the fields \<open>in_type\<close> and
  \<open>out_type\<close>, which \<^verbatim>\<open>GetMeta\<close> reads by reflection.
\<close>

record ('i, 'o, 'u) Lambda =
  name :: string
  invoke :: "('i, 'o, 'u) InvokeFunc"
  options :: LambdaOptions
  metrics :: nat
  in_type :: gotype
  out_type :: gotype

definition DefaultOptions :: LambdaOptions where
  "DefaultOptions =
     \<lparr>Timeout = 30 * 1000000000, EnableMetrics = True, Concurrency = 10, Retries = 0,
      EnableCallback = False, ComponentType = ''Lambda''\<rparr>"

definition GetName :: "('i, 'o, 'u) Lambda \<Rightarrow> string" where
  "GetName l = name l"

definition GetMeta :: "int \<Rightarrow> ('i, 'o, 'u) Lambda \<Rightarrow> LambdaMeta" where
  "GetMeta t l =
     \<lparr>Name = name l, InputType = type_String (in_type l),
      OutputType = type_String (out_type l),
      MetaComponentType = ComponentType (options l), RegisteredAt = t\<rparr>"

section \<open>Registry (registry/registry.go)\<close>

text \<open>
  The three Go maps are association lists read with \<open>map_of\<close>, written with
  \<open>AList.update\<close> and \<open>AList.delete\<close>; the order of a list is one of the orders in
  which Go may iterate over the map. A constructor is a thunk that may return nil.
\<close>

record ('i, 'o, 'u) Registry =
  lambdas :: "(string \<times> ('i, 'o, 'u) Lambda) list"
  constructors :: "(string \<times> (unit \<Rightarrow> ('i, 'o, 'u) Lambda option)) list"
  meta :: "(string \<times> LambdaMeta) list"

definition empty_Registry :: "('i, 'o, 'u) Registry" where
  "empty_Registry = \<lparr>lambdas = [], constructors = [], meta = []\<rparr>"

text \<open>
  \<^verbatim>\<open>Register\<close> at time \<open>t\<close>. A nil \<^verbatim>\<open>*Lambda\<close> panics in \<^verbatim>\<open>lambda.GetName()\<close>.
  The result is the returned error and the registry afterwards.
\<close>

fun Register ::
  "int \<Rightarrow> ('i, 'o, 'u) Registry \<Rightarrow> ('i, 'o, 'u) Lambda option \<Rightarrow>
   panic + (error option \<times> ('i, 'o, 'u) Registry)" where
  "Register t r None = Inl NilPointerDereference"
| "Register t r (Some lambda) =
     (let nm = GetName lambda in
      if map_of (lambdas r) nm \<noteq> None then Inr (Some (AlreadyRegistered nm), r)
      else Inr (None,
                r\<lparr>lambdas := AList.update nm lambda (lambdas r),
                  meta := AList.update nm (GetMeta t lambda) (meta r)\<rparr>))"

definition RegisterWithConstructor ::
  "('i, 'o, 'u) Registry \<Rightarrow> string \<Rightarrow> (unit \<Rightarrow> ('i, 'o, 'u) Lambda option) \<Rightarrow>
   ('i, 'o, 'u) Registry" where
  "RegisterWithConstructor r nm constructor =
     r\<lparr>constructors := AList.update nm constructor (constructors r)\<rparr>"

definition Get ::
  "('i, 'o, 'u) Registry \<Rightarrow> string \<Rightarrow> ('i, 'o, 'u) Lambda option \<times> bool" where
  "Get r nm = (case map_of (lambdas r) nm of
                 None \<Rightarrow> (None, False)
               | Some lambda \<Rightarrow> (Some lambda, True))"

text \<open>
  \<^verbatim>\<open>Build\<close>: the error that \<^verbatim>\<open>r.Register(lambda)\<close> returns is dropped by the code;
  only its effect on the registry remains.
\<close>

definition Build ::
  "int \<Rightarrow> ('i, 'o, 'u) Registry \<Rightarrow> string \<Rightarrow>
   panic + ((('i, 'o, 'u) Lambda option \<times> error option) \<times> ('i, 'o, 'u) Registry)" where
  "Build t r nm =
     (case map_of (constructors r) nm of
        None \<Rightarrow> Inr ((None, Some (ConstructorNotFound nm)), r)
      | Some constructor \<Rightarrow>
          (let lambda = constructor () in
           case Register t r lambda of
             Inl p \<Rightarrow> Inl p
           | Inr (_, r') \<Rightarrow> Inr ((lambda, None), r')))"

definition List_names :: "('i, 'o, 'u) Registry \<Rightarrow> string list" where
  "List_names r =
     map fst (lambdas r) @
     filter (\<lambda>nm. map_of (lambdas r) nm = None) (map fst (constructors r))"

definition Registry_GetMeta ::
  "('i, 'o, 'u) Registry \<Rightarrow> string \<Rightarrow> LambdaMeta option \<times> bool" where
  "Registry_GetMeta r nm = (case map_of (meta r) nm of
                              None \<Rightarrow> (None, False)
                            | Some m \<Rightarrow> (Some m, True))"

definition Unregister ::
  "('i, 'o, 'u) Registry \<Rightarrow> string \<Rightarrow> bool \<times> ('i, 'o, 'u) Registry" where
  "Unregister r nm =
     (if map_of (lambdas r) nm \<noteq> None then
        (True, r\<lparr>lambdas := AList.delete nm (lambdas r),
                 meta := AList.delete nm (meta r)\<rparr>)
      else if map_of (constructors r) nm \<noteq> None then
        (True, r\<lparr>constructors := AList.delete nm (constructors r)\<rparr>)
      else (False, r))"

definition Clear :: "('i, 'o, 'u) Registry \<Rightarrow> ('i, 'o, 'u) Registry" where
  "Clear r = \<lparr>lambdas = [], constructors = [], meta = []\<rparr>"

definition Count :: "('i, 'o, 'u) Registry \<Rightarrow> int" where
  "Count r = int (length (lambdas r)) + int (length (constructors r))"

subsection \<open>The process-wide registries, one per type pair\<close>

text \<open>
  \<^verbatim>\<open>globalRegistries\<close> is a \<^verbatim>\<open>sync.Map\<close> from the key string to a registry of any
  type pair; every entry remembers the type pair it was created for, which is what the
  type assertion \<^verbatim>\<open>reg.(*Registry[I, O])\<close> tests. A registry is held by pointer:
  \<open>putRegistry\<close> writes a changed registry back under its key.
\<close>

type_synonym ('i, 'o, 'u) registries =
  "(string \<times> ((gotype \<times> gotype) \<times> ('i, 'o, 'u) Registry)) list"

definition registryKey :: "gotype \<Rightarrow> gotype \<Rightarrow> string" where
  "registryKey tin tout = type_String tin @ ''->'' @ type_String tout"

definition getRegistry ::
  "('i, 'o, 'u) registries \<Rightarrow> gotype \<Rightarrow> gotype \<Rightarrow>
   panic + (('i, 'o, 'u) Registry \<times> ('i, 'o, 'u) registries)" where
  "getRegistry g tin tout =
     (let key = registryKey tin tout in
      case map_of g key of
        Some (tp, reg) \<Rightarrow>
          if tp = (tin, tout) then Inr (reg, g) else Inl (InterfaceConversion key)
      | None \<Rightarrow> Inr (empty_Registry, AList.update key ((tin, tout), empty_Registry) g))"

definition putRegistry ::
  "('i, 'o, 'u) registries \<Rightarrow> gotype \<Rightarrow> gotype \<Rightarrow> ('i, 'o, 'u) Registry \<Rightarrow>
   ('i, 'o, 'u) registries" where
  "putRegistry g tin tout reg = AList.update (registryKey tin tout) ((tin, tout), reg) g"

text \<open>
  \<^verbatim>\<open>NewLambda\<close>: the options are applied to the defaults in order; \<open>addr\<close> is the
  address of the fresh \<^verbatim>\<open>&LambdaMetrics{}\<close>.
\<close>

definition NewLambda ::
  "nat \<Rightarrow> gotype \<Rightarrow> gotype \<Rightarrow> string \<Rightarrow> ('i, 'o, 'u) InvokeFunc \<Rightarrow>
   (LambdaOptions \<Rightarrow> LambdaOptions) list \<Rightarrow> ('i, 'o, 'u) Lambda" where
  "NewLambda addr tin tout nm fn opts =
     \<lparr>name = nm, invoke = fn, options = foldl (\<lambda>os opt. opt os) DefaultOptions opts,
      metrics = addr, in_type = tin, out_type = tout\<rparr>"

definition WithTimeout_opt :: "int \<Rightarrow> LambdaOptions \<Rightarrow> LambdaOptions" where
  "WithTimeout_opt d opts = opts\<lparr>Timeout := d\<rparr>"

definition WithEnableMetrics :: "bool \<Rightarrow> LambdaOptions \<Rightarrow> LambdaOptions" where
  "WithEnableMetrics b opts = opts\<lparr>EnableMetrics := b\<rparr>"


definition RegisterLambda ::
  "('i, 'o, 'u) registries \<Rightarrow> int \<Rightarrow> nat \<Rightarrow> gotype \<Rightarrow> gotype \<Rightarrow> string \<Rightarrow>
   ('i, 'o, 'u) InvokeFunc \<Rightarrow> (LambdaOptions \<Rightarrow> LambdaOptions) list \<Rightarrow>
   panic + (error option \<times> ('i, 'o, 'u) registries)" where
  "RegisterLambda g t addr tin tout nm fn opts =
     (let lambda = NewLambda addr tin tout nm fn opts in
      case getRegistry g tin tout of
        Inl p \<Rightarrow> Inl p
      | Inr (reg, g1) \<Rightarrow>
          (case Register t reg (Some lambda) of
             Inl p \<Rightarrow> Inl p
           | Inr (err, reg') \<Rightarrow> Inr (err, putRegistry g1 tin tout reg')))"

definition GetLambda ::
  "('i, 'o, 'u) registries \<Rightarrow> gotype \<Rightarrow> gotype \<Rightarrow> string \<Rightarrow>
   panic + ((('i, 'o, 'u) Lambda option \<times> bool) \<times> ('i, 'o, 'u) registries)" where
  "GetLambda g tin tout nm =
     (case getRegistry g tin tout of
        Inl p \<Rightarrow> Inl p
      | Inr (reg, g1) \<Rightarrow> Inr (Get reg nm, g1))"

subsection \<open>Business functions of the tests\<close>

text \<open>
  \<^verbatim>\<open>func(ctx, input int) (int, error) { return input + 1, nil }\<close> of
  \<^verbatim>\<open>TestBasicLambdaRegistration\<close> and \<^verbatim>\<open>mathDouble\<close> of the examples; a Go
  \<^verbatim>\<open>int\<close> is a 64-bit word.
\<close>

definition test_basic_add :: "(64 word, 64 word, 'u) InvokeFunc" where
  "test_basic_add c input w = ((input + 1, None), w)"

definition mathDouble :: "(64 word, 64 word, 'u) InvokeFunc" where
  "mathDouble c input w = ((input * 2, None), w)"

definition go_int :: gotype where
  "go_int = Builtin ''int''"

definition go_string :: gotype where
  "go_string = Builtin ''string''"

subsection \<open>Example registries\<close>

text \<open>
  Two Units of the same name and type pair, a registry that holds the first one, and the
  same registry with a factory for the second one stored under that name.
\<close>

definition lam_add :: "(64 word, 64 word, unit) Lambda" where
  "lam_add = NewLambda 0 go_int go_int ''test_basic_add'' test_basic_add []"

definition lam_twin :: "(64 word, 64 word, unit) Lambda" where
  "lam_twin = NewLambda 1 go_int go_int ''test_basic_add'' mathDouble []"

definition reg_one :: "(64 word, 64 word, unit) Registry" where
  "reg_one =
     \<lparr>lambdas = [(''test_basic_add'', lam_add)], constructors = [],
      meta = [(''test_basic_add'', GetMeta 0 lam_add)]\<rparr>"

definition reg_both :: "(64 word, 64 word, unit) Registry" where
  "reg_both = RegisterWithConstructor reg_one ''test_basic_add'' (\<lambda>_. Some lam_twin)"

text \<open>
  Two distinct named types whose packages share their last path element, so that
  \<^verbatim>\<open>reflect\<close> prints both as \<^verbatim>\<open>user.User\<close>.
\<close>

definition api_User :: gotype where
  "api_User = Named ''app/api/user'' ''user'' ''User''"

definition db_User :: gotype where
  "db_User = Named ''app/db/user'' ''user'' ''User''"

definition describe_api :: "(string, string, unit) InvokeFunc" where
  "describe_api c input w = ((''api:'' @ input, None), w)"

definition describe_db :: "(string, string, unit) InvokeFunc" where
  "describe_db c input w = ((''db:'' @ input, None), w)"

section \<open>Middleware chain\<close>

text \<open>
  A middleware receives the context, the input and the next handler, and may call the
  handler any number of times or not at all.
\<close>

type_synonym ('i, 'o, 'u) Middleware =
  "ctx \<Rightarrow> 'i \<Rightarrow> ('i, 'o, 'u) InvokeFunc \<Rightarrow> 'u world \<Rightarrow> ('o \<times> error option) \<times> 'u world"

record ('i, 'o, 'u) Chain =
  middlewares :: "('i, 'o, 'u) Middleware list"
  final :: "('i, 'o, 'u) InvokeFunc"

definition NewChain ::
  "('i, 'o, 'u) InvokeFunc \<Rightarrow> ('i, 'o, 'u) Middleware list \<Rightarrow> ('i, 'o, 'u) Chain" where
  "NewChain fin mws = \<lparr>middlewares = mws, final = fin\<rparr>"

definition Use ::
  "('i, 'o, 'u) Chain \<Rightarrow> ('i, 'o, 'u) Middleware list \<Rightarrow> ('i, 'o, 'u) Chain" where
  "Use c mws = \<lparr>middlewares = middlewares c @ mws, final = final c\<rparr>"

text \<open>
  \<^verbatim>\<open>buildChain(index)\<close>; \<^verbatim>\<open>Execute\<close> is its only caller and starts it at index 0, so
  the index is a natural number.
\<close>

function buildChain :: "('i, 'o, 'u) Chain \<Rightarrow> nat \<Rightarrow> ('i, 'o, 'u) InvokeFunc" where
  "buildChain c index =
     (if index \<ge> length (middlewares c) then (\<lambda>ctx input. final c ctx input)
      else (let currentMiddleware = middlewares c ! index;
                nextHandler = buildChain c (index + 1)
            in (\<lambda>ctx input. currentMiddleware ctx input nextHandler)))"
  by pat_completeness auto
termination
  by (relation "measure (\<lambda>(c, index). length (middlewares c) - index)") auto

declare buildChain.simps [simp del]

definition Execute :: "('i, 'o, 'u) Chain \<Rightarrow> ('i, 'o, 'u) InvokeFunc" where
  "Execute c ctx input = (let handler = buildChain c 0 in handler ctx input)"

text \<open>
  Middlewares and a terminal function that record into a shared log (the user state),
  and a middleware that returns without calling the next handler.
\<close>

definition recorder :: "string \<Rightarrow> ('i, 'o, string list) Middleware" where
  "recorder tag ctx input next w =
     (let w1 = w\<lparr>user := user w @ [tag @ ''-before'']\<rparr>;
          (res, w2) = next ctx input w1
      in (res, w2\<lparr>user := user w2 @ [tag @ ''-after'']\<rparr>))"

definition terminal_T :: "('i, 'i, string list) InvokeFunc" where
  "terminal_T ctx input w = ((input, None), w\<lparr>user := user w @ [''T'']\<rparr>)"

definition terminal_T' :: "('i, 'i, string list) InvokeFunc" where
  "terminal_T' ctx input w = ((input, None), w\<lparr>user := user w @ [''T-prime'']\<rparr>)"

definition reject :: "('i, 'i, string list) Middleware" where
  "reject ctx input next w = ((input, Some (Failure ''rejected'')), w)"

definition world0 :: "'u \<Rightarrow> 'u world" where
  "world0 u =
     \<lparr>now = 0,
      metrics_heap = (\<lambda>_. \<lparr>TotalInvocations = 0, SuccessInvocations = 0,
                             ErrorInvocations = 0, TotalDuration = 0, AverageDuration = 0,
                             LastInvocationTime = 0\<rparr>),
      coin = (\<lambda>_. False), races = 0, user = u\<rparr>"

section \<open>Contexts, timers and retries\<close>

definition ctx_Err :: "ctx \<Rightarrow> 'u world \<Rightarrow> error option" where
  "ctx_Err c w = (case done_at c of
                    None \<Rightarrow> None
                  | Some t \<Rightarrow> if t \<le> now w then Some (cause c) else None)"

text \<open>
  \<^verbatim>\<open>context.WithTimeout(parent, d)\<close> called at time \<open>t\<close>: the child is done at the
  deadline or when the parent is, whichever comes first, with the matching error. A parent
  that is done already passes its error on when the child is attached to it, before the
  deadline is looked at, also when the duration is not positive.
\<close>

definition WithTimeout :: "ctx \<Rightarrow> int \<Rightarrow> int \<Rightarrow> ctx" where
  "WithTimeout parent d t =
     (case done_at parent of
        None \<Rightarrow> \<lparr>done_at = Some (t + d), cause = DeadlineExceeded\<rparr>
      | Some p \<Rightarrow> if p \<le> t \<or> p \<le> t + d then parent
                  else \<lparr>done_at = Some (t + d), cause = DeadlineExceeded\<rparr>)"

text \<open>
  The statement
  \<^verbatim>\<open>select { case <-ctx.Done(): return zero, ctx.Err(); case <-time.After(d): }\<close>.
  The timer fires \<open>d\<close> nanoseconds from now (at once if \<open>d\<close> is not positive), the
  context case is ready from \<open>done_at\<close> on; the case that is ready first is taken and the
  clock moves to that instant. When both are ready at the same instant Go chooses at
  random: the next choice of the scheduler is consumed. The result is \<open>True\<close> when the
  context case was taken.
\<close>

definition wait_or_done :: "ctx \<Rightarrow> int \<Rightarrow> 'u world \<Rightarrow> bool \<times> 'u world" where
  "wait_or_done c d w =
     (let fire = now w + max 0 d in
      case done_at c of
        None \<Rightarrow> (False, w\<lparr>now := fire\<rparr>)
      | Some t \<Rightarrow>
          (let dn = max (now w) t in
           if dn < fire then (True, w\<lparr>now := dn\<rparr>)
           else if fire < dn then (False, w\<lparr>now := fire\<rparr>)
           else (coin w (races w), w\<lparr>now := fire, races := races w + 1\<rparr>)))"

text \<open>
  What a retry loop did, for the statements about it: \<open>Slept d\<close> for a wait of \<open>d\<close>
  nanoseconds that ran to its end, \<open>Called\<close> for a call of the wrapped function. The
  trace is an observation only; no result depends on it.
\<close>

datatype event = Slept int | Called


text \<open>
  \<^verbatim>\<open>time.Duration(attempt) * 100 * time.Millisecond\<close>, in 64-bit arithmetic as
  \<^verbatim>\<open>time.Duration\<close> is an \<^verbatim>\<open>int64\<close>.
\<close>

definition retry_delay :: "int \<Rightarrow> int" where
  "retry_delay attempt = sint ((word_of_int attempt :: 64 word) * 100 * 1000000)"

text \<open>
  The loop of \<^verbatim>\<open>Lambda.invokeWithRetry\<close>, entered with the loop variables
  \<open>attempt\<close> and \<open>lastErr\<close>. The counter is an unbounded integer: it only counts up
  to \<open>Retries + 1\<close>. The zero value of the output type is \<open>0\<close>.
\<close>

function invokeWithRetry_loop ::
  "('i, 'o::zero, 'u) Lambda \<Rightarrow> ctx \<Rightarrow> 'i \<Rightarrow> int \<Rightarrow> error option \<Rightarrow> 'u world \<Rightarrow>
   ('o \<times> error option) \<times> 'u world \<times> event list" where
  "invokeWithRetry_loop l c input attempt lastErr w =
     (if attempt \<le> Retries (options l) then
        (let (done, w1, slept) =
               (if attempt > 0 then
                  (let (dn, w') = wait_or_done c (retry_delay attempt) w
                   in (dn, w', [Slept (retry_delay attempt)]))
                else (False, w, []))
         in if done then ((0, ctx_Err c w1), w1, [])
            else
              (let ((output, err), w2) = invoke l c input w1 in
               if err = None then ((output, None), w2, slept @ [Called])
               else if ctx_Err c w2 \<noteq> None then ((0, ctx_Err c w2), w2, slept @ [Called])
               else
                 (let (res, w3, tr) = invokeWithRetry_loop l c input (attempt + 1) err w2
                  in (res, w3, slept @ Called # tr))))
      else ((0, lastErr), w, []))"
  by pat_completeness auto
termination
  by (relation "measure (\<lambda>(l, c, input, attempt, lastErr, w).
                  nat (Retries (options l) + 1 - attempt))") auto

declare invokeWithRetry_loop.simps [simp del]

definition invokeWithRetry_traced ::
  "('i, 'o::zero, 'u) Lambda \<Rightarrow> ctx \<Rightarrow> 'i \<Rightarrow> 'u world \<Rightarrow>
   ('o \<times> error option) \<times> 'u world \<times> event list" where
  "invokeWithRetry_traced l c input w = invokeWithRetry_loop l c input 0 None w"

definition invokeWithRetry ::
  "('i, 'o::zero, 'u) Lambda \<Rightarrow> ctx \<Rightarrow> 'i \<Rightarrow> 'u world \<Rightarrow> ('o \<times> error option) \<times> 'u world" where
  "invokeWithRetry l c input w =
     (let (res, w', tr) = invokeWithRetry_traced l c input w in (res, w'))"

text \<open>
  \<^verbatim>\<open>updateMetrics\<close> on the statistics record the Unit points to. The counter starts at
  zero and is only incremented, so the divisor is positive; Go's integer division
  truncates.
\<close>

definition updateMetrics ::
  "('i, 'o, 'u) Lambda \<Rightarrow> int \<Rightarrow> error option \<Rightarrow> 'u world \<Rightarrow> 'u world" where
  "updateMetrics l duration err w =
     (let m = metrics_heap w (metrics l);
          total = TotalInvocations m + 1;
          dur = TotalDuration m + duration;
          m1 = m\<lparr>TotalInvocations := total, TotalDuration := dur,
                 AverageDuration := dur sdiv total, LastInvocationTime := now w\<rparr>;
          m2 = (if err \<noteq> None then m1\<lparr>ErrorInvocations := ErrorInvocations m1 + 1\<rparr>
                else m1\<lparr>SuccessInvocations := SuccessInvocations m1 + 1\<rparr>)
      in w\<lparr>metrics_heap := (metrics_heap w)(metrics l := m2)\<rparr>)"

text \<open>
  \<^verbatim>\<open>Lambda.Invoke\<close>. The result record is always allocated, so the returned pointer is
  never nil; the returned error is the error stored in the record.
\<close>

definition call_ctx :: "('i, 'o, 'u) Lambda \<Rightarrow> ctx \<Rightarrow> 'u world \<Rightarrow> ctx" where
  "call_ctx l c w =
     (if Timeout (options l) > 0 then WithTimeout c (Timeout (options l)) (now w) else c)"

definition Lambda_Invoke_traced ::
  "('i, 'o::zero, 'u) Lambda \<Rightarrow> ctx \<Rightarrow> 'i \<Rightarrow> 'u world \<Rightarrow>
   ('o LambdaResult option \<times> error option) \<times> 'u world \<times> event list" where
  "Lambda_Invoke_traced l c input w =
     (let start = now w;
          c' = call_ctx l c w;
          ((output, err), w1, tr) = invokeWithRetry_traced l c' input w;
          result = \<lparr>Output = output, Error = err, Duration = now w1 - start,
                    Timestamp = start\<rparr>;
          w2 = (if EnableMetrics (options l) then updateMetrics l (Duration result) err w1
                else w1)
      in ((Some result, err), w2, tr))"

definition Lambda_Invoke ::
  "('i, 'o::zero, 'u) Lambda \<Rightarrow> ctx \<Rightarrow> 'i \<Rightarrow> 'u world \<Rightarrow>
   ('o LambdaResult option \<times> error option) \<times> 'u world" where
  "Lambda_Invoke l c input w =
     (let (res, w', tr) = Lambda_Invoke_traced l c input w in (res, w'))"

text \<open>
  The sequence of waits and calls of a retry loop that runs attempts \<open>a\<close> to \<open>r\<close> to
  the end, with the wait \<open>delay k\<close> before attempt \<open>k > 0\<close>.
\<close>

definition schedule :: "(int \<Rightarrow> int) \<Rightarrow> int \<Rightarrow> int \<Rightarrow> event list" where
  "schedule delay a r =
     concat (map (\<lambda>k. (if k > 0 then [Slept (delay k)] else []) @ [Called]) [a..r])"





text \<open>The wait before attempt \<open>attempt\<close> of a retry loop, with the trace it leaves.\<close>

definition retry_wait :: "ctx \<Rightarrow> int \<Rightarrow> 'u world \<Rightarrow> bool \<times> 'u world \<times> event list" where
  "retry_wait c attempt w =
     (if attempt > 0 then
        (let (dn, w') = wait_or_done c (retry_delay attempt) w
         in (dn, w', [Slept (retry_delay attempt)]))
      else (False, w, []))"

text \<open>
  A business function that fails on its first \<open>k\<close> calls and then returns its input; the
  user state counts the calls. Each call takes no time.
\<close>

definition flaky :: "nat \<Rightarrow> (64 word, 64 word, nat) InvokeFunc" where
  "flaky k c input w =
     (if user w < k then ((0, Some (Failure ''transient'')), w\<lparr>user := user w + 1\<rparr>)
      else ((input, None), w\<lparr>user := user w + 1\<rparr>))"




subsection \<open>The Retry middleware\<close>

text \<open>
  \<^verbatim>\<open>backoff := time.Duration(1<<uint(attempt-1)) * 100 * time.Millisecond\<close>, capped
  by \<^verbatim>\<open>if backoff > 5*time.Second { backoff = 5 * time.Second }\<close>. The constant 1
  takes the type \<^verbatim>\<open>time.Duration\<close>, so the shift and the products are 64-bit and the
  comparison is signed.
\<close>

definition backoff :: "int \<Rightarrow> int" where
  "backoff attempt =
     (let b = sint ((push_bit (nat (attempt - 1)) 1 :: 64 word) * 100 * 1000000)
      in if b > 5 * 1000000000 then 5 * 1000000000 else b)"

function Retry_loop ::
  "int \<Rightarrow> ctx \<Rightarrow> 'i \<Rightarrow> ('i, 'o::zero, 'u) InvokeFunc \<Rightarrow> int \<Rightarrow> error option \<Rightarrow> 'u world \<Rightarrow>
   ('o \<times> error option) \<times> 'u world \<times> event list" where
  "Retry_loop maxRetries c input next attempt lastErr w =
     (if attempt \<le> maxRetries then
        (let (done, w1, slept) =
               (if attempt > 0 then
                  (let (dn, w') = wait_or_done c (backoff attempt) w
                   in (dn, w', [Slept (backoff attempt)]))
                else (False, w, []))
         in if done then ((0, ctx_Err c w1), w1, [])
            else
              (let ((output, err), w2) = next c input w1 in
               if err = None then ((output, None), w2, slept @ [Called])
               else if ctx_Err c w2 \<noteq> None then ((0, ctx_Err c w2), w2, slept @ [Called])
               else
                 (let (res, w3, tr) = Retry_loop maxRetries c input next (attempt + 1) err w2
                  in (res, w3, slept @ Called # tr))))
      else ((0, Some (AfterRetries maxRetries lastErr)), w, []))"
  by pat_completeness auto
termination
  by (relation "measure (\<lambda>(maxRetries, c, input, next, attempt, lastErr, w).
                  nat (maxRetries + 1 - attempt))") auto

declare Retry_loop.simps [simp del]

definition Retry_traced ::
  "int \<Rightarrow> ctx \<Rightarrow> 'i \<Rightarrow> ('i, 'o::zero, 'u) InvokeFunc \<Rightarrow> 'u world \<Rightarrow>
   ('o \<times> error option) \<times> 'u world \<times> event list" where
  "Retry_traced maxRetries c input next w = Retry_loop maxRetries c input next 0 None w"

definition Retry :: "int \<Rightarrow> ('i, 'o::zero, 'u) Middleware" where
  "Retry maxRetries c input next w =
     (let (res, w', tr) = Retry_traced maxRetries c input next w in (res, w'))"

text \<open>The wait before attempt \<open>attempt\<close> of the Retry middleware.\<close>

definition backoff_wait :: "ctx \<Rightarrow> int \<Rightarrow> 'u world \<Rightarrow> bool \<times> 'u world \<times> event list" where
  "backoff_wait c attempt w =
     (if attempt > 0 then
        (let (dn, w') = wait_or_done c (backoff attempt) w
         in (dn, w', [Slept (backoff attempt)]))
      else (False, w, []))"

section \<open>Invoker (invoker/invoker.go)\<close>

text \<open>
  \<^verbatim>\<open>Invoker[I, O]\<close>: the semaphore is a buffered channel, nil or of a positive capacity;
  the type arguments are carried as fields. The invoker reads the process-wide
  registries, which are passed in and returned since \<open>getRegistry\<close> may add an entry.
  A call may panic (\<open>Inl\<close>); otherwise it returns its results, the registries and the
  world.
\<close>

record Invoker =
  semaphore :: "nat option"
  inv_in :: gotype
  inv_out :: gotype

definition NewInvoker :: "gotype \<Rightarrow> gotype \<Rightarrow> Invoker" where
  "NewInvoker tin tout = \<lparr>semaphore = None, inv_in = tin, inv_out = tout\<rparr>"


text \<open>
  The statement
  \<^verbatim>\<open>select { case inv.semaphore <- struct{}{}: ...; case <-ctx.Done(): return nil, ctx.Err() }\<close>.
  The statement completes when the channel has a free slot or the context is done, and
  the world is the one of that instant. If the context is not done, a slot is free and
  the send proceeds. If the context is done, the context case is taken when no slot is
  free, and either case may be taken when one is: which of the two happens is read from
  \<open>coin\<close>. The result is \<open>True\<close> when the context case was taken. Each call gives
  its slot back when it returns.
\<close>

definition acquire :: "Invoker \<Rightarrow> ctx \<Rightarrow> 'u world \<Rightarrow> bool \<times> 'u world" where
  "acquire ivk c w =
     (case semaphore ivk of
        None \<Rightarrow> (False, w)
      | Some cap \<Rightarrow>
          if ctx_Err c w \<noteq> None then (coin w (races w), w\<lparr>races := races w + 1\<rparr>)
          else (False, w))"

definition Invoke ::
  "Invoker \<Rightarrow> ('i, 'o::zero, 'u) registries \<Rightarrow> ctx \<Rightarrow> string \<Rightarrow> 'i \<Rightarrow> 'u world \<Rightarrow>
   panic + (('o LambdaResult option \<times> error option) \<times> ('i, 'o, 'u) registries \<times> 'u world)" where
  "Invoke ivk g c nm input w =
     (case GetLambda g (inv_in ivk) (inv_out ivk) nm of
        Inl p \<Rightarrow> Inl p
      | Inr ((lambda, exists), g1) \<Rightarrow>
          if \<not> exists then Inr ((None, Some (NotFound nm)), g1, w)
          else
            (case acquire ivk c w of
               (True, w1) \<Rightarrow> Inr ((None, ctx_Err c w1), g1, w1)
             | (False, w1) \<Rightarrow>
                 (case lambda of
                    None \<Rightarrow> Inl NilPointerDereference
                  | Some l \<Rightarrow> (let (res, w2) = Lambda_Invoke l c input w1
                               in Inr (res, g1, w2)))))"





text \<open>
  \<^verbatim>\<open>Pipeline\<close>: \<open>results\<close> is the slice of \<open>len(inputs)\<close> pointers, \<open>i\<close> the loop
  index and the list the inputs still to run. A nil slice is \<open>None\<close>.
\<close>

fun Pipeline_loop ::
  "Invoker \<Rightarrow> ('i, 'o::zero, 'u) registries \<Rightarrow> ctx \<Rightarrow> string \<Rightarrow>
   'o LambdaResult option list \<Rightarrow> nat \<Rightarrow> 'i list \<Rightarrow> 'u world \<Rightarrow>
   panic + (('o LambdaResult option list option \<times> error option) \<times>
            ('i, 'o, 'u) registries \<times> 'u world)" where
  "Pipeline_loop ivk g c nm results i [] w = Inr ((Some results, None), g, w)"
| "Pipeline_loop ivk g c nm results i (input # rest) w =
     (case Invoke ivk g c nm input w of
        Inl p \<Rightarrow> Inl p
      | Inr ((result, err), g1, w1) \<Rightarrow>
          (case err of
             Some e \<Rightarrow> Inr ((None, Some (PipelineFailed i e)), g1, w1)
           | None \<Rightarrow>
               (let results' = results[i := result] in
                case result of
                  None \<Rightarrow> Inl NilPointerDereference
                | Some res \<Rightarrow>
                    if Error res \<noteq> None
                    then Inr ((Some (take (i + 1) results'), Error res), g1, w1)
                    else Pipeline_loop ivk g1 c nm results' (i + 1) rest w1)))"

definition Pipeline ::
  "Invoker \<Rightarrow> ('i, 'o::zero, 'u) registries \<Rightarrow> ctx \<Rightarrow> string \<Rightarrow> 'i list \<Rightarrow> 'u world \<Rightarrow>
   panic + (('o LambdaResult option list option \<times> error option) \<times>
            ('i, 'o, 'u) registries \<times> 'u world)" where
  "Pipeline ivk g c nm inputs w =
     Pipeline_loop ivk g c nm (replicate (length inputs) None) 0 inputs w"





subsection \<open>Example Units for the invoker\<close>

text \<open>
  A Unit that doubles its input, as \<^verbatim>\<open>math_double\<close> of the examples, and a Unit whose
  function returns an error on the input 2 and doubles every other input; both are
  registered for the type pair \<^verbatim>\<open>(int, int)\<close>.
\<close>

definition fail_on :: "64 word \<Rightarrow> (64 word, 64 word, nat) InvokeFunc" where
  "fail_on k c input w =
     (if input = k then ((0, Some (Failure ''bad input'')), w) else ((input * 2, None), w))"

definition lam_double :: "(64 word, 64 word, nat) Lambda" where
  "lam_double = NewLambda 0 go_int go_int ''math_double'' mathDouble []"

definition lam_picky :: "(64 word, 64 word, nat) Lambda" where
  "lam_picky = NewLambda 1 go_int go_int ''picky'' (fail_on 2) []"

definition g_math :: "(64 word, 64 word, nat) registries" where
  "g_math =
     [(''int->int'',
       ((go_int, go_int),
        \<lparr>lambdas = [(''math_double'', lam_double), (''picky'', lam_picky)],
         constructors = [],
         meta = [(''math_double'', GetMeta 0 lam_double), (''picky'', GetMeta 1 lam_picky)]\<rparr>))]"

definition inv_int :: Invoker where
  "inv_int = NewInvoker go_int go_int"

section \<open>Registry: properties\<close>

lemma map_of_delete_same: "map_of (AList.delete k al) k = None"
  by (simp add: delete_conv')

lemma map_of_update_same: "map_of (AList.update k v al) k = Some v"
  by (simp add: update_conv')

lemma map_of_update_other: "k' \<noteq> k \<Longrightarrow> map_of (AList.update k v al) k' = map_of al k'"
  by (simp add: update_conv')

lemma map_of_None_iff: "map_of al k = None \<longleftrightarrow> k \<notin> fst ` set al"
  by (simp add: map_of_eq_None_iff)

text \<open>
  Claim C4. Registering a Unit whose name is already taken by a concrete Unit of the same
  registry fails with the duplicate-name error and returns the registry as it was: the
  first Unit is still what \<open>Get\<close> finds, and nothing of the second Unit is stored.
\<close>

theorem Register_duplicate_unchanged:
  assumes "map_of (lambdas r) (GetName l2) = Some l1"
  shows "Register t r (Some l2) = Inr (Some (AlreadyRegistered (GetName l2)), r)
     \<and> Get r (GetName l2) = (Some l1, True)"
  using assms by (simp add: Get_def)

theorem Register_duplicate_unchanged_witness:
  "map_of (lambdas reg_one) (GetName lam_twin) = Some lam_add
   \<and> Register 7 reg_one (Some lam_twin) = Inr (Some (AlreadyRegistered ''test_basic_add''), reg_one)
   \<and> Get reg_one ''test_basic_add'' = (Some lam_add, True)"
proof -
  have h: "map_of (lambdas reg_one) (GetName lam_twin) = Some lam_add"
    by (simp add: reg_one_def GetName_def lam_twin_def NewLambda_def)
  have n: "GetName lam_twin = ''test_basic_add''"
    by (simp add: GetName_def lam_twin_def NewLambda_def)
  show ?thesis
    using h Register_duplicate_unchanged [OF h, of 7] by (simp add: n)
qed

text \<open>
  Claim C6. After a successful \<open>Register\<close> of a Unit, \<open>Get\<close> on its name finds that
  very Unit, whose name is the requested one. \<open>Get\<close> only reads the Unit map: a name
  that has a constructor but no concrete Unit is reported as not found.
\<close>

theorem Get_after_Register:
  "(Register t r (Some l) = Inr (None, r') \<longrightarrow>
      (\<exists>l'. Get r' (GetName l) = (Some l', True) \<and> GetName l' = GetName l \<and> l' = l))
   \<and> (map_of (lambdas r) nm = None \<longrightarrow>
        Get (RegisterWithConstructor r nm c) nm = (None, False))"
  by (auto simp: Get_def Let_def map_of_update_same RegisterWithConstructor_def split: if_splits)

theorem Get_after_Register_witness:
  "Register 0 empty_Registry (Some lam_add) = Inr (None, reg_one)
   \<and> Get reg_one ''test_basic_add'' = (Some lam_add, True)
   \<and> map_of (lambdas (empty_Registry :: (64 word, 64 word, unit) Registry)) ''lazy'' = None
   \<and> Get (RegisterWithConstructor empty_Registry ''lazy'' (\<lambda>_. Some lam_add)) ''lazy'' = (None, False)"
proof -
  have n: "GetName lam_add = ''test_basic_add''"
    by (simp add: GetName_def lam_add_def NewLambda_def)
  have r: "Register 0 empty_Registry (Some lam_add) = Inr (None, reg_one)"
    by (simp add: n empty_Registry_def reg_one_def Let_def)
  have e: "map_of (lambdas (empty_Registry :: (64 word, 64 word, unit) Registry)) ''lazy'' = None"
    by (simp add: empty_Registry_def)
  show ?thesis
    using r e Get_after_Register [of 0 empty_Registry lam_add reg_one "''lazy''" "\<lambda>_. Some lam_add"]
    by (simp add: n)
qed

text \<open>
  Claim C10. When a name has both a concrete Unit and a constructor, \<open>Unregister\<close>
  returns true and deletes the Unit and its metadata only. The constructor stays, so the
  name is still listed and \<open>Build\<close> still materializes it; a second \<open>Unregister\<close> of
  the name then deletes the constructor.
\<close>

theorem Unregister_keeps_constructor:
  assumes "map_of (lambdas r) nm = Some l" and "map_of (constructors r) nm = Some c"
    and "c () = Some l'"
  shows "\<exists>r1 r2. Unregister r nm = (True, r1)
     \<and> lambdas r1 = AList.delete nm (lambdas r)
     \<and> meta r1 = AList.delete nm (meta r)
     \<and> constructors r1 = constructors r
     \<and> Get r1 nm = (None, False)
     \<and> Registry_GetMeta r1 nm = (None, False)
     \<and> nm \<in> set (List_names r1)
     \<and> (\<exists>r'. Build t r1 nm = Inr ((Some l', None), r'))
     \<and> Unregister r1 nm = (True, r2)
     \<and> constructors r2 = AList.delete nm (constructors r)
     \<and> map_of (constructors r2) nm = None
     \<and> lambdas r2 = lambdas r1 \<and> meta r2 = meta r1"
proof -
  have k: "nm \<in> fst ` set (constructors r)"
    using assms(2) by (metis map_of_None_iff option.distinct(1))
  show ?thesis
    using assms k
    by (auto simp: Unregister_def List_names_def map_of_delete_same Get_def
        Registry_GetMeta_def Build_def Let_def)
qed

theorem Unregister_keeps_constructor_witness:
  "\<exists>r1 r2. Unregister reg_both ''test_basic_add'' = (True, r1)
     \<and> constructors r1 = constructors reg_both
     \<and> Get r1 ''test_basic_add'' = (None, False)
     \<and> ''test_basic_add'' \<in> set (List_names r1)
     \<and> (\<exists>r'. Build 7 r1 ''test_basic_add'' = Inr ((Some lam_twin, None), r'))
     \<and> Unregister r1 ''test_basic_add'' = (True, r2)
     \<and> map_of (constructors r2) ''test_basic_add'' = None"
proof -
  have h1: "map_of (lambdas reg_both) ''test_basic_add'' = Some lam_add"
    by (simp add: reg_both_def reg_one_def RegisterWithConstructor_def)
  have h2: "map_of (constructors reg_both) ''test_basic_add'' = Some (\<lambda>_. Some lam_twin)"
    by (simp add: reg_both_def reg_one_def RegisterWithConstructor_def)
  have h3: "(\<lambda>_::unit. Some lam_twin) () = Some lam_twin"
    by simp
  from Unregister_keeps_constructor [OF h1 h2 h3, of 7] show ?thesis
    by blast
qed

text \<open>
  Claim C3, as the code has it. \<open>Build\<close> fails exactly when no constructor is stored
  under the name. Otherwise it hands the constructed Unit to \<open>Register\<close>, keeps the
  registry that \<open>Register\<close> returns and drops its error: when the Unit's own name is
  already taken the registry is unchanged, when it is free the Unit is found by \<open>Get\<close>
  afterwards, and in both cases the constructed Unit is returned with no error.
\<close>

theorem Build_spec:
  "(map_of (constructors r) nm = None \<longrightarrow>
      Build t r nm = Inr ((None, Some (ConstructorNotFound nm)), r))
   \<and> (map_of (constructors r) nm = Some c \<and> c () = Some l \<longrightarrow>
       (\<exists>e r'. Register t r (Some l) = Inr (e, r')
          \<and> Build t r nm = Inr ((Some l, None), r')
          \<and> (map_of (lambdas r) (GetName l) \<noteq> None \<longrightarrow> r' = r)
          \<and> (map_of (lambdas r) (GetName l) = None \<longrightarrow> Get r' (GetName l) = (Some l, True))))"
  by (auto simp: Build_def Let_def Get_def map_of_update_same)

theorem Build_spec_witness:
  "Build 7 reg_both ''missing'' = Inr ((None, Some (ConstructorNotFound ''missing'')), reg_both)
   \<and> (\<exists>e. Register 7 reg_both (Some lam_twin) = Inr (e, reg_both))
   \<and> Build 7 reg_both ''test_basic_add'' = Inr ((Some lam_twin, None), reg_both)
   \<and> Build 7 reg_one ''missing'' = Inr ((None, Some (ConstructorNotFound ''missing'')), reg_one)"
proof -
  have h0: "map_of (constructors reg_both) ''missing'' = None"
    by (simp add: reg_both_def reg_one_def RegisterWithConstructor_def)
  have h1: "map_of (constructors reg_both) ''test_basic_add'' = Some (\<lambda>_. Some lam_twin)
            \<and> (\<lambda>_::unit. Some lam_twin) () = Some lam_twin"
    by (simp add: reg_both_def reg_one_def RegisterWithConstructor_def)
  have h2: "map_of (lambdas reg_both) (GetName lam_twin) \<noteq> None"
    by (simp add: reg_both_def reg_one_def RegisterWithConstructor_def GetName_def
        lam_twin_def NewLambda_def)
  have h3: "map_of (constructors reg_one) ''missing'' = None"
    by (simp add: reg_one_def)
  show ?thesis
    using h0 h1 h2 h3
      Build_spec [where r = reg_both and nm = "''missing''" and t = 7]
      Build_spec [where r = reg_both and nm = "''test_basic_add''" and t = 7
        and c = "\<lambda>_. Some lam_twin" and l = lam_twin]
      Build_spec [where r = reg_one and nm = "''missing''" and t = 7]
    by auto
qed

text \<open>
  Claim C3 as stated fails: with a concrete Unit already registered under the name,
  \<open>Build\<close> does not fail; it returns the freshly constructed Unit and no error, while
  the registry keeps the first Unit.
\<close>

theorem Build_duplicate_succeeds:
  "map_of (lambdas reg_both) ''test_basic_add'' = Some lam_add
   \<and> Build 7 reg_both ''test_basic_add'' = Inr ((Some lam_twin, None), reg_both)"
  by (simp add: Build_def reg_both_def reg_one_def RegisterWithConstructor_def
      GetName_def lam_twin_def NewLambda_def Let_def)

subsection \<open>Type pairs\<close>

lemma getRegistry_fresh:
  "map_of g (registryKey a b) = None \<Longrightarrow>
   getRegistry g a b = Inr (empty_Registry, AList.update (registryKey a b) ((a, b), empty_Registry) g)"
  by (simp add: getRegistry_def)

lemma getRegistry_present:
  "map_of g (registryKey a b) = Some ((a, b), reg) \<Longrightarrow> getRegistry g a b = Inr (reg, g)"
  by (simp add: getRegistry_def)

lemma getRegistry_clash:
  "map_of g (registryKey a b) = Some (tp, reg) \<Longrightarrow> tp \<noteq> (a, b) \<Longrightarrow>
   getRegistry g a b = Inl (InterfaceConversion (registryKey a b))"
  by (simp add: getRegistry_def)

text \<open>
  Two type pairs with different keys do not interfere: the same name registers under
  both, and each lookup returns the Unit of its own type pair.
\<close>

lemma distinct_keys_isolated:
  assumes k: "registryKey a b \<noteq> registryKey c d"
    and f1: "map_of g (registryKey a b) = None"
    and f2: "map_of g (registryKey c d) = None"
  shows "\<exists>g1 g2. RegisterLambda g t1 m1 a b nm fn1 [] = Inr (None, g1)
     \<and> RegisterLambda g1 t2 m2 c d nm fn2 [] = Inr (None, g2)
     \<and> GetLambda g2 a b nm = Inr ((Some (NewLambda m1 a b nm fn1 []), True), g2)
     \<and> GetLambda g2 c d nm = Inr ((Some (NewLambda m2 c d nm fn2 []), True), g2)"
  using assms
  by (simp add: RegisterLambda_def GetLambda_def getRegistry_def putRegistry_def Let_def
      empty_Registry_def GetName_def NewLambda_def update_conv' Get_def)

text \<open>
  Claim C5 at an input where it fails. The two type pairs differ, but their keys are the
  same string, so the second registration finds the registry of the first type pair and
  the type assertion in \<open>getRegistry\<close> panics; so does a lookup through the second
  type pair.
\<close>

theorem same_type_string_panics:
  "registryKey api_User go_string = registryKey db_User go_string
   \<and> api_User \<noteq> db_User
   \<and> (\<exists>g1. RegisterLambda [] 0 0 api_User go_string ''describe'' describe_api [] = Inr (None, g1)
        \<and> RegisterLambda g1 1 1 db_User go_string ''describe'' describe_db []
            = Inl (InterfaceConversion ''user.User->string'')
        \<and> GetLambda g1 db_User go_string ''describe''
            = Inl (InterfaceConversion ''user.User->string''))"
  by (simp add: RegisterLambda_def GetLambda_def getRegistry_def putRegistry_def Let_def
      empty_Registry_def GetName_def NewLambda_def update_conv' Get_def registryKey_def
      api_User_def db_User_def go_string_def)

section \<open>Middleware chain: properties\<close>

lemma buildChain_foldr:
  "buildChain c i = foldr (\<lambda>m next. (\<lambda>ctx input. m ctx input next)) (drop i (middlewares c)) (final c)"
proof (induction c i rule: buildChain.induct)
  case (1 c index)
  show ?case
  proof (cases "index \<ge> length (middlewares c)")
    case True
    then show ?thesis by (subst buildChain.simps) simp
  next
    case False
    then have d: "drop index (middlewares c) = middlewares c ! index # drop (Suc index) (middlewares c)"
      by (simp add: Cons_nth_drop_Suc)
    show ?thesis
      using False "1.IH" [OF False refl]
      by (subst buildChain.simps) (simp add: d Let_def)
  qed
qed

lemma Execute_foldr:
  "Execute (NewChain T ms) = foldr (\<lambda>m next. (\<lambda>ctx input. m ctx input next)) ms T"
  by (rule ext)+ (simp add: Execute_def buildChain_foldr NewChain_def)

lemma foldr_ignores_final:
  assumes "m \<in> set ms" and "\<And>c x n n'. m c x n = m c x n'"
  shows "foldr (\<lambda>m next. (\<lambda>ctx input. m ctx input next)) ms T
       = foldr (\<lambda>m next. (\<lambda>ctx input. m ctx input next)) ms T'"
  using assms(1)
proof (induction ms)
  case Nil
  then show ?case by simp
next
  case (Cons a ms)
  show ?case
  proof (cases "m = a")
    case True
    have "\<And>c x. a c x (foldr (\<lambda>m next. (\<lambda>ctx input. m ctx input next)) ms T)
               = a c x (foldr (\<lambda>m next. (\<lambda>ctx input. m ctx input next)) ms T')"
      unfolding True [symmetric] by (rule assms(2))
    then show ?thesis by simp
  next
    case False
    with Cons show ?thesis by simp
  qed
qed



text \<open>
  Claim C7. \<open>Execute\<close> composes from the right: with no middleware it is the terminal
  function, and otherwise the middleware at index 0 runs first and receives as its next
  handler the chain of all later middlewares around the terminal function. With recording
  middlewares A then B and a recording terminal T the log reads A-before, B-before, T,
  B-after, A-after. If some middleware of the chain never uses its next handler, the
  result of the chain does not depend on the terminal function.
\<close>

theorem Execute_order:
  "Execute (NewChain T []) c x w = T c x w
   \<and> Execute (NewChain T (m # ms)) c x w = m c x (Execute (NewChain T ms)) w
   \<and> user (snd (Execute (NewChain terminal_T [recorder a, recorder b]) c y w0))
       = user w0 @ [a @ ''-before'', b @ ''-before'', ''T'', b @ ''-after'', a @ ''-after'']
   \<and> ((\<exists>k\<in>set ms. \<forall>c x n n'. k c x n = k c x n') \<longrightarrow>
        Execute (NewChain T ms) = Execute (NewChain T' ms))"
proof (intro conjI impI)
  show "Execute (NewChain T []) c x w = T c x w"
    by (simp add: Execute_foldr)
  show "Execute (NewChain T (m # ms)) c x w = m c x (Execute (NewChain T ms)) w"
    by (simp add: Execute_foldr)
  show "user (snd (Execute (NewChain terminal_T [recorder a, recorder b]) c y w0))
       = user w0 @ [a @ ''-before'', b @ ''-before'', ''T'', b @ ''-after'', a @ ''-after'']"
    by (simp add: Execute_foldr recorder_def terminal_T_def Let_def)
  assume "\<exists>k\<in>set ms. \<forall>c x n n'. k c x n = k c x n'"
  then obtain k where "k \<in> set ms" and "\<And>c x n n'. k c x n = k c x n'"
    by blast
  then show "Execute (NewChain T ms) = Execute (NewChain T' ms)"
    unfolding Execute_foldr by (rule foldr_ignores_final)
qed

theorem Execute_order_witness:
  "(\<exists>k\<in>set [recorder ''A'', reject, recorder ''B'' :: (nat, nat, string list) Middleware].
       \<forall>c x n n'. k c x n = k c x n')
   \<and> Execute (NewChain terminal_T [recorder ''A'', reject, recorder ''B'' :: (nat, nat, string list) Middleware])
       = Execute (NewChain terminal_T' [recorder ''A'', reject, recorder ''B''])
   \<and> user (snd (Execute (NewChain terminal_T [recorder ''A'', recorder ''B'']) Background (5::nat) (world0 [])))
       = [''A-before'', ''B-before'', ''T'', ''B-after'', ''A-after'']"
proof -
  let ?ms = "[recorder ''A'', reject, recorder ''B''] :: (nat, nat, string list) Middleware list"
  have r: "\<forall>c x n n'. (reject :: (nat, nat, string list) Middleware) c x n = reject c x n'"
    by (intro allI ext) (simp add: reject_def)
  have h: "\<exists>k\<in>set ?ms. \<forall>c x n n'. k c x n = k c x n'"
    by (rule bexI [of _ reject]) (rule r, simp)
  note t = Execute_order [where ms = ?ms and T = terminal_T and T' = terminal_T'
      and a = "''A''" and b = "''B''" and c = Background and y = "5::nat" and ?w0.0 = "world0 []"]
  have imp: "(\<exists>k\<in>set ?ms. \<forall>c x n n'. k c x n = k c x n') \<longrightarrow>
      Execute (NewChain terminal_T ?ms) = Execute (NewChain terminal_T' ?ms)"
    by (rule t [THEN conjunct2, THEN conjunct2, THEN conjunct2])
  from imp h have eq: "Execute (NewChain terminal_T ?ms) = Execute (NewChain terminal_T' ?ms)"
    by (rule mp)
  have "user (snd (Execute (NewChain terminal_T [recorder ''A'', recorder ''B'']) Background (5::nat) (world0 [])))
       = user (world0 []) @ [''A'' @ ''-before'', ''B'' @ ''-before'', ''T'', ''B'' @ ''-after'', ''A'' @ ''-after'']"
    by (rule t [THEN conjunct2, THEN conjunct2, THEN conjunct1])
  then have lg: "user (snd (Execute (NewChain terminal_T [recorder ''A'', recorder ''B'']) Background (5::nat) (world0 [])))
       = [''A-before'', ''B-before'', ''T'', ''B-after'', ''A-after'']"
    by (simp add: world0_def)
  from h eq lg show ?thesis
    by (intro conjI)
qed

text \<open>A middleware that short-circuits: only the middlewares before it are recorded.\<close>

lemma short_circuit_log:
  "user (snd (Execute (NewChain terminal_T [recorder ''A'', reject, recorder ''B'']) Background (5::nat) (world0 [])))
       = [''A-before'', ''A-after'']"
  by (simp add: Execute_foldr recorder_def reject_def world0_def Let_def)

section \<open>Unit-level retry: properties\<close>

lemma schedule_step: "a \<le> r \<Longrightarrow> schedule d a r = (if a > 0 then [Slept (d a)] else []) @ Called # schedule d (a + 1) r"
  by (simp add: schedule_def upto_rec1)

lemma schedule_empty: "r < a \<Longrightarrow> schedule d a r = []"
  by (simp add: schedule_def)

lemma wait_or_done_True: "wait_or_done c d w = (True, w1) \<Longrightarrow> ctx_Err c w1 = Some (cause c)"
  by (auto simp: wait_or_done_def ctx_Err_def Let_def split: option.splits if_splits)



lemma loop_exhausted:
  "Retries (options l) < a \<Longrightarrow> invokeWithRetry_loop l c x a le w = ((0, le), w, [])"
  by (subst invokeWithRetry_loop.simps) simp

lemma loop_step:
  assumes "a \<le> Retries (options l)"
  shows "invokeWithRetry_loop l c x a le w =
     (let (dn, w1, slept) = retry_wait c a w in
      if dn then ((0, ctx_Err c w1), w1, [])
      else (let ((output, err), w2) = invoke l c x w1 in
            if err = None then ((output, None), w2, slept @ [Called])
            else if ctx_Err c w2 \<noteq> None then ((0, ctx_Err c w2), w2, slept @ [Called])
            else (let (res, w3, tr) = invokeWithRetry_loop l c x (a + 1) err w2
                  in (res, w3, slept @ Called # tr))))"
  using assms by (subst invokeWithRetry_loop.simps) (simp add: retry_wait_def)







lemma now_updateMetrics: "now (updateMetrics l d e w) = now w"
  by (simp add: updateMetrics_def Let_def)

























section \<open>Retry middleware: properties\<close>

lemma backoff_38: "backoff 38 = - 4702848726509551616"
  by (simp add: backoff_def)

lemma backoff_37: "backoff 37 = 5000000000"
  by (simp add: backoff_def)

lemma backoff_1: "backoff 1 = 100000000" "backoff 2 = 200000000" "backoff 6 = 3200000000" "backoff 7 = 5000000000"
  by (simp_all add: backoff_def)

text \<open>Up to re-attempt 37 the wait is the doubled delay, capped at 5 seconds.\<close>

lemma backoff_range:
  assumes "1 \<le> k" "k \<le> 37"
  shows "backoff k = min (2 ^ nat (k - 1) * 100 * 1000000) (5 * 1000000000)"
proof -
  let ?n = "nat (k - 1)"
  have n: "?n \<le> 36" using assms by simp
  have "(2::int) ^ ?n \<le> 2 ^ 36" using n by (intro power_increasing) simp_all
  then have b: "(2::int) ^ ?n * 100 * 1000000 < 2 ^ 63" by simp
  have p: "- (2 ^ 63) \<le> (2::int) ^ ?n * 100 * 1000000"
    by (rule order_trans [of _ 0]) simp_all
  have "(push_bit ?n 1 :: 64 word) * 100 * 1000000 = word_of_int (2 ^ ?n * 100 * 1000000)"
    by (simp add: push_bit_eq_mult)
  then have "sint ((push_bit ?n 1 :: 64 word) * 100 * 1000000) = signed_take_bit 63 (2 ^ ?n * 100 * 1000000)"
    by (simp only: sint_sbintrunc') simp
  also have "\<dots> = 2 ^ ?n * 100 * 1000000"
    using b p by (intro signed_take_bit_int_eq_self)
  finally show ?thesis
    by (simp add: backoff_def Let_def min_def)
qed


text \<open>
  Claim C9 at an input where it fails: \<open>Retry(38)\<close> around a function that keeps
  failing, under a context that is never done. The wait before re-attempt 37 is the cap
  of 5 seconds, but for re-attempt 38 the product overflows the 64-bit duration before
  it is compared with the cap: the wait is negative, the timer fires at once, and the
  whole run of 39 calls takes 161.3 seconds, 5 seconds less than with a capped wait.
\<close>

theorem Retry_backoff_overflow:
  "backoff 37 = 5000000000
   \<and> backoff 38 = - 4702848726509551616
   \<and> fst (Retry_traced 38 Background 7 (flaky 100) (world0 0))
       = (0, Some (AfterRetries 38 (Some (Failure ''transient''))))
   \<and> now (fst (snd (Retry_traced 38 Background 7 (flaky 100) (world0 0)))) = 161300000000
   \<and> user (fst (snd (Retry_traced 38 Background 7 (flaky 100) (world0 0)))) = 39
   \<and> last (butlast (snd (snd (Retry_traced 38 Background 7 (flaky 100) (world0 0)))))
       = Slept (- 4702848726509551616)"
  by (simp add: Retry_traced_def Retry_loop.simps wait_or_done_def Background_def
      world0_def flaky_def ctx_Err_def backoff_def Let_def)

text \<open>
  What holds of the Retry middleware for every input: its trace is a prefix of the
  schedule with the waits \<open>backoff k\<close>; an error while the context is not done comes
  after all attempts and wraps the last error with \<open>maxRetries\<close>; a success ends the
  loop; an error while the context is done is the context's error.
\<close>

lemma Retry_exhausted:
  "r < a \<Longrightarrow> Retry_loop r c x next a le w = ((0, Some (AfterRetries r le)), w, [])"
  by (subst Retry_loop.simps) simp

lemma Retry_step:
  assumes "a \<le> r"
  shows "Retry_loop r c x next a le w =
     (let (dn, w1, slept) = backoff_wait c a w in
      if dn then ((0, ctx_Err c w1), w1, [])
      else (let ((output, err), w2) = next c x w1 in
            if err = None then ((output, None), w2, slept @ [Called])
            else if ctx_Err c w2 \<noteq> None then ((0, ctx_Err c w2), w2, slept @ [Called])
            else (let (res, w3, tr) = Retry_loop r c x next (a + 1) err w2
                  in (res, w3, slept @ Called # tr))))"
  using assms by (subst Retry_loop.simps) (simp add: backoff_wait_def)

lemma backoff_wait_cases:
  "backoff_wait c a w = (dn, w1, slept) \<Longrightarrow>
     slept = (if a > 0 then [Slept (backoff a)] else [])
     \<and> (dn \<longrightarrow> ctx_Err c w1 = Some (cause c))"
  by (auto simp: backoff_wait_def Let_def split: if_splits prod.splits dest: wait_or_done_True)

lemma Retry_trace:
  "nat (r + 1 - a) = n \<Longrightarrow>
   Retry_loop r c x next a le w = (res, w', tr) \<Longrightarrow>
     prefix tr (schedule backoff a r)
   \<and> (snd res \<noteq> None \<and> ctx_Err c w' = None \<longrightarrow>
        tr = schedule backoff a r \<and> (\<exists>e. res = (0, Some (AfterRetries r e)) \<and> (a \<le> r \<longrightarrow> e \<noteq> None)))
   \<and> (snd res = None \<and> a \<le> r \<longrightarrow> tr \<noteq> [] \<and> last tr = Called)
   \<and> (a \<le> r \<and> ctx_Err c w' \<noteq> None \<and> snd res \<noteq> None \<longrightarrow> res = (0, ctx_Err c w'))"
proof (induction n arbitrary: a le w res w' tr)
  case 0
  then have "r < a" by simp
  with 0 show ?case by (auto simp: Retry_exhausted schedule_empty)
next
  case (Suc n)
  from Suc.prems(1) have le: "a \<le> r" by simp
  obtain dn w1 slept where rw: "backoff_wait c a w = (dn, w1, slept)"
    by (cases "backoff_wait c a w") auto
  note rc = backoff_wait_cases [OF rw]
  have sch: "schedule backoff a r = slept @ Called # schedule backoff (a + 1) r"
    using rc le by (simp add: schedule_step)
  show ?case
  proof (cases dn)
    case True
    with Suc.prems(2) le rw rc show ?thesis
      by (auto simp: Retry_step)
  next
    case False
    obtain out err w2 where iv: "next c x w1 = ((out, err), w2)"
      by (cases "next c x w1") auto
    show ?thesis
    proof (cases "err = None")
      case True
      with Suc.prems(2) le rw iv False sch show ?thesis
        by (auto simp: Retry_step)
    next
      case e: False
      show ?thesis
      proof (cases "ctx_Err c w2 = None")
        case False
        with Suc.prems(2) le rw iv \<open>\<not> dn\<close> e sch show ?thesis
          by (auto simp: Retry_step)
      next
        case True
        obtain res' w3 tr' where rec: "Retry_loop r c x next (a + 1) err w2 = (res', w3, tr')"
          by (cases "Retry_loop r c x next (a + 1) err w2") auto
        have m: "nat (r + 1 - (a + 1)) = n" using Suc.prems(1) by simp
        note ih = Suc.IH [OF m rec]
        have eq: "res = res'" "w' = w3" "tr = slept @ Called # tr'"
          using Suc.prems(2) le rw iv \<open>\<not> dn\<close> e True rec by (simp_all add: Retry_step)
        show ?thesis
        proof (cases "a + 1 \<le> r")
          case True
          with ih eq sch show ?thesis by auto
        next
          case False
          then have "Retry_loop r c x next (a + 1) err w2 = ((0, Some (AfterRetries r err)), w2, [])"
            by (simp add: Retry_exhausted)
          with rec have "res' = (0, Some (AfterRetries r err))" "w3 = w2" "tr' = []" by simp_all
          with eq sch e \<open>ctx_Err c w2 = None\<close> False show ?thesis
            by (auto simp: schedule_empty)
        qed
      qed
    qed
  qed
qed

lemma Retry_first_success:
  assumes "0 \<le> r" "next c x w = ((out, None), w1)"
  shows "Retry r c x next w = ((out, None), w1)"
  using assms by (simp add: Retry_def Retry_traced_def Retry_step backoff_wait_def)

section \<open>Invoker: properties\<close>

lemma Lambda_Invoke_shape:
  "Lambda_Invoke l c x w = ((r, e), w') \<Longrightarrow>
     \<exists>res. r = Some res \<and> Error res = e \<and> Timestamp res = now w
        \<and> Duration res = now w' - now w"
  by (auto simp: Lambda_Invoke_def Lambda_Invoke_traced_def Let_def now_updateMetrics
      split: prod.splits)

lemma acquire_now: "acquire ivk c w = (dn, w1) \<Longrightarrow> now w1 = now w"
  by (auto simp: acquire_def split: option.splits if_splits)

lemma acquire_True:
  "acquire ivk c w = (True, w1) \<Longrightarrow> ctx_Err c w1 \<noteq> None \<and> semaphore ivk \<noteq> None"
  by (auto simp: acquire_def ctx_Err_def split: option.splits if_splits)

lemma Invoke_cases:
  assumes "Invoke ivk g c nm x w = Inr ((r, e), g1, w1)"
  shows "(r = None \<and> e = Some (NotFound nm) \<and> w1 = w)
       \<or> (r = None \<and> e = ctx_Err c w1 \<and> e \<noteq> None \<and> semaphore ivk \<noteq> None)
       \<or> (\<exists>res. r = Some res \<and> Error res = e \<and> Timestamp res = now w
            \<and> Duration res = now w1 - now w)"
proof -
  obtain l ex g' where gl: "GetLambda g (inv_in ivk) (inv_out ivk) nm = Inr ((l, ex), g')"
    using assms by (auto simp: Invoke_def split: sum.splits)
  show ?thesis
  proof (cases ex)
    case False
    with assms gl show ?thesis by (simp add: Invoke_def)
  next
    case True
    obtain dn w0 where aq: "acquire ivk c w = (dn, w0)" by (cases "acquire ivk c w") auto
    show ?thesis
    proof (cases dn)
      case dnT: True
      with aq have "ctx_Err c w0 \<noteq> None \<and> semaphore ivk \<noteq> None" by (simp add: acquire_True)
      with assms gl True aq dnT show ?thesis by (auto simp: Invoke_def)
    next
      case dnF: False
      with assms gl True aq obtain lam where l: "l = Some lam"
        by (cases l) (auto simp: Invoke_def)
      obtain r' e' w2 where li: "Lambda_Invoke lam c x w0 = ((r', e'), w2)"
        by (metis prod.exhaust)
      with assms gl True aq dnF l have "r = r'" "e = e'" "w1 = w2"
        by (simp_all add: Invoke_def)
      with Lambda_Invoke_shape [OF li] acquire_now [OF aq] show ?thesis by auto
    qed
  qed
qed

lemma Invoke_success:
  "Invoke ivk g c nm x w = Inr ((r, None), g1, w1) \<Longrightarrow>
     \<exists>res. r = Some res \<and> Error res = None \<and> Timestamp res = now w
        \<and> Duration res = now w1 - now w"
  using Invoke_cases [of ivk g c nm x w r None g1 w1] by auto

text \<open>
  Every error of \<open>Pipeline\<close> comes with a nil slice: an error of the Unit's function is
  also the error that \<open>Invoke\<close> returns, so the loop leaves through its first exit and
  never reaches the exit that returns the results so far.
\<close>

lemma Pipeline_loop_error:
  "Pipeline_loop ivk g c nm results i inputs w = Inr ((rs, Some e), g1, w1) \<Longrightarrow>
     rs = None \<and> (\<exists>j e'. e = PipelineFailed j e')"
proof (induction inputs arbitrary: g results i w)
  case Nil
  then show ?case by simp
next
  case (Cons x xs)
  obtain r er g' w' where iv: "Invoke ivk g c nm x w = Inr ((r, er), g', w')"
    using Cons.prems by (auto split: sum.splits)
  show ?case
  proof (cases er)
    case (Some a)
    with Cons.prems iv show ?thesis by auto
  next
    case None
    with iv have "Invoke ivk g c nm x w = Inr ((r, None), g', w')" by simp
    from Invoke_success [OF this] obtain res where r: "r = Some res" "Error res = None"
      by auto
    with Cons.prems iv None have
      "Pipeline_loop ivk g' c nm (results[i := r]) (i + 1) xs w' = Inr ((rs, Some e), g1, w1)"
      by (simp add: Let_def)
    then show ?thesis by (rule Cons.IH)
  qed
qed







lemma g_math_built:
  "\<exists>g1. RegisterLambda [] 0 0 go_int go_int ''math_double'' mathDouble [] = Inr (None, g1)
     \<and> RegisterLambda g1 1 1 go_int go_int ''picky'' (fail_on 2) [] = Inr (None, g_math)"
  by (simp add: RegisterLambda_def getRegistry_def putRegistry_def registryKey_def go_int_def
      empty_Registry_def GetName_def NewLambda_def g_math_def lam_double_def lam_picky_def Let_def)

lemma GetLambda_g_math:
  "GetLambda g_math (inv_in inv_int) (inv_out inv_int) ''math_double'' = Inr ((Some lam_double, True), g_math)"
  "GetLambda g_math (inv_in inv_int) (inv_out inv_int) ''picky'' = Inr ((Some lam_picky, True), g_math)"
  "GetLambda g_math (inv_in inv_int) (inv_out inv_int) ''missing'' = Inr ((None, False), g_math)"
  by (simp_all add: GetLambda_def getRegistry_def registryKey_def inv_int_def NewInvoker_def
      go_int_def g_math_def Get_def)

lemma inv_int_sem: "semaphore inv_int = None"
  by (simp add: inv_int_def NewInvoker_def)

lemma lam_simps:
  "Retries (options lam_double) = 0" "Timeout (options lam_double) = 30000000000"
  "EnableMetrics (options lam_double) = True" "invoke lam_double = mathDouble"
  "Retries (options lam_picky) = 0" "Timeout (options lam_picky) = 30000000000"
  "EnableMetrics (options lam_picky) = True" "invoke lam_picky = fail_on 2"
  by (simp_all add: lam_double_def lam_picky_def NewLambda_def DefaultOptions_def)

lemma Lambda_Invoke_double:
  "done_at c = None \<Longrightarrow> fst (Lambda_Invoke lam_double c x w)
     = (Some \<lparr>Output = x * 2, Error = None, Duration = 0, Timestamp = now w\<rparr>, None)"
  "done_at c = None \<Longrightarrow> now (snd (Lambda_Invoke lam_double c x w)) = now w"
  by (simp_all add: Lambda_Invoke_def Lambda_Invoke_traced_def invokeWithRetry_traced_def lam_simps
      loop_step retry_wait_def call_ctx_def mathDouble_def Let_def now_updateMetrics)

lemma Lambda_Invoke_picky:
  "done_at c = None \<Longrightarrow> fst (Lambda_Invoke lam_picky c x w)
     = (if x = 2 then (Some \<lparr>Output = 0, Error = Some (Failure ''bad input''), Duration = 0, Timestamp = now w\<rparr>,
                        Some (Failure ''bad input''))
        else (Some \<lparr>Output = x * 2, Error = None, Duration = 0, Timestamp = now w\<rparr>, None))"
  "done_at c = None \<Longrightarrow> now (snd (Lambda_Invoke lam_picky c x w)) = now w"
  by (simp_all add: Lambda_Invoke_def Lambda_Invoke_traced_def invokeWithRetry_traced_def lam_simps
      loop_step loop_exhausted retry_wait_def call_ctx_def fail_on_def Let_def now_updateMetrics
      WithTimeout_def ctx_Err_def)

lemma bg: "done_at Background = None" by (simp add: Background_def)

lemma Invoke_eval:
  "Invoke inv_int g_math c ''missing'' x w = Inr ((None, Some (NotFound ''missing'')), g_math, w)"
  "Invoke inv_int g_math Background ''picky'' x w
     = Inr (fst (Lambda_Invoke lam_picky Background x w), g_math, snd (Lambda_Invoke lam_picky Background x w))"
  "Invoke inv_int g_math Background ''math_double'' x w
     = Inr (fst (Lambda_Invoke lam_double Background x w), g_math, snd (Lambda_Invoke lam_double Background x w))"
  by (simp_all add: Invoke_def GetLambda_g_math acquire_def inv_int_sem case_prod_beta)

lemma Pipeline_picky_eval:
  "\<exists>g w. Pipeline inv_int g_math Background ''picky'' [1, 2, 3] (world0 (0::nat))
       = Inr ((None, Some (PipelineFailed 1 (Failure ''bad input''))), g, w)"
  by (simp add: Pipeline_def Invoke_eval Lambda_Invoke_picky bg Let_def)

text \<open>
  Claim C2 at an input where it fails: the Unit \<open>picky\<close> is registered, the inputs are
  1, 2, 3 and its function returns an error on 2. \<open>Pipeline\<close> returns a nil slice and
  the error wrapped as a failure of step 1, not the results of the inputs 1 and 2
  with the function's error.
\<close>

theorem Pipeline_error_drops_results:
  "\<exists>g w. Pipeline inv_int g_math Background ''picky'' [1, 2, 3] (world0 (0::nat))
       = Inr ((None, Some (PipelineFailed 1 (Failure ''bad input''))), g, w)"
  by (rule Pipeline_picky_eval)

text \<open>Without errors the results come in input order.\<close>

lemma Pipeline_doubles:
  "\<exists>g w. Pipeline inv_int g_math Background ''math_double'' [1, 2, 3, 4, 5] (world0 (0::nat))
       = Inr ((Some (map (\<lambda>v. Some \<lparr>Output = v, Error = None, Duration = 0, Timestamp = 0\<rparr>)
                       [2, 4, 6, 8, 10]), None), g, w)"
  by (simp add: Pipeline_def Invoke_eval Lambda_Invoke_double bg Let_def world0_def)








lemma Pipeline_missing_eval:
  "Pipeline inv_int g_math Background ''missing'' [1, 2, 3] (world0 (0::nat))
     = Inr ((None, Some (PipelineFailed 0 (NotFound ''missing''))), g_math, world0 0)"
  by (simp add: Pipeline_def Invoke_eval)



end
